theory Spec2Isabelle
  imports Main "HOL-Library.Sublist" "HOL-Library.Multiset"
begin

section \<open>Data model\<close>

text \<open>
  The portal is a browser client of three remote collaborators: a relational store with
  the tables \<open>students\<close>, \<open>applications\<close> and \<open>admins\<close>, a blob store with the bucket
  \<open>applications\<close>, and an identity provider. The pages under \<open>src/pages\<close> and the
  authentication context keep their own component state and talk to the collaborators
  through awaited requests. The model passes both states explicitly: every handler takes
  its component state and the remote \<open>world\<close> and returns the two, updated.

  Strings are character lists; timestamps are natural numbers (instants of one clock).
\<close>

record student =
  student_ident :: string
  full_name :: string
  email :: string
  phone :: string

text \<open>
  The row type \<open>Application\<close> is declared in \<open>lib/supabase\<close>; its columns are the ones
  the pages read and write.
\<close>

record application =
  app_id :: string
  student_id :: string
  desired_country :: string
  desired_college :: string
  education_level :: string
  field_of_study :: string
  passport_url :: string
  transcripts_url :: string
  motivation_letter_url :: string
  status :: string
  created_at :: nat
  updated_at :: nat

text \<open>\<open>interface ApplicationWithStudent extends Application { student: Student }\<close>\<close>

record application_with_student = application +
  student :: student

text \<open>The browser's \<open>File\<close>: its name, declared media type and size in bytes.\<close>

record File =
  file_name :: string
  file_type :: string
  file_size :: nat

text \<open>
  A value that a request can reject with or report in the \<open>error\<close> field of its
  response. The handlers only ask whether it is an \<open>instanceof Error\<close> and read its
  \<open>message\<close>.
\<close>

record js_error =
  instanceof_Error :: bool
  message :: string

text \<open>
  A remote call fails in one of two ways: the awaited promise resolves to a response
  whose \<open>error\<close> field is set (and whose \<open>data\<close> is \<open>null\<close>), or the promise rejects.
\<close>

datatype failure = ErrorResponse js_error | Rejects js_error

fun thrown :: "failure \<Rightarrow> js_error" where
  "thrown (ErrorResponse e) = e"
| "thrown (Rejects e) = e"

text \<open>The object literal that \<open>handleSubmit\<close> passes to \<open>insert\<close>.\<close>

record new_application =
  new_student_id :: string
  new_desired_country :: string
  new_desired_college :: string
  new_education_level :: string
  new_field_of_study :: string
  new_passport_url :: string
  new_transcripts_url :: string
  new_motivation_letter_url :: string
  new_status :: string

text \<open>The requests that the sources issue, one constructor per call site shape.\<close>

datatype request =
    StorageUpload string File
  | InsertApplication new_application
  | UpdateApplicationStatus string string
  | SelectAdminById string
  | SelectStudentName string
  | SelectApplicationsOfStudent string
  | SelectApplicationsWithStudents

text \<open>
  The remote world: the three tables, the bucket, the clock, and the log of the requests
  issued so far, each with the principal of the session that sent it.
\<close>

record world =
  students_tbl :: "student list"
  applications_tbl :: "application list"
  admins_tbl :: "string list"
  bucket :: "(string \<times> File) list"
  clock :: nat
  requests :: "(string option \<times> request) list"

text \<open>
  What the sources cannot decide is a parameter: whether the collaborator fails a request
  (from the state of the world, the sender and the request: a network error, a
  constraint, an access policy of the store), the base of the public locators, and the
  identifier the store gives a new row.
\<close>

record backend =
  fault :: "world \<Rightarrow> string option \<Rightarrow> request \<Rightarrow> failure option"
  public_base :: string
  new_id :: "world \<Rightarrow> string"

definition issue :: "string option \<Rightarrow> request \<Rightarrow> world \<Rightarrow> world" where
  "issue p q w = w\<lparr>requests := requests w @ [(p, q)]\<rparr>"

section \<open>The collaborators' operations\<close>

text \<open>
  \<open>supabase.storage.from('applications').upload(fileName, file)\<close>: the request is
  logged; a failed upload stores nothing.
\<close>

definition storage_upload ::
  "backend \<Rightarrow> string option \<Rightarrow> string \<Rightarrow> File \<Rightarrow> world \<Rightarrow> failure option \<times> world" where
  "storage_upload bk p fileName f w =
     (let w1 = issue p (StorageUpload fileName f) w in
      case fault bk w p (StorageUpload fileName f) of
        Some e \<Rightarrow> (Some e, w1)
      | None \<Rightarrow> (None, w1\<lparr>bucket := bucket w1 @ [(fileName, f)]\<rparr>))"

text \<open>\<open>getPublicUrl(fileName)\<close> builds the locator locally, without a request.\<close>

definition getPublicUrl :: "backend \<Rightarrow> string \<Rightarrow> string" where
  "getPublicUrl bk fileName = public_base bk @ fileName"

text \<open>
  Modelled from the spec: the columns that the insert of \<open>handleSubmit\<close> does not send
  are filled by the store, whose schema is not among the sources: a unique id, and
  \<open>created_at\<close> and \<open>updated_at\<close> set to the time of the insertion.
\<close>

definition stored_row :: "backend \<Rightarrow> world \<Rightarrow> new_application \<Rightarrow> application" where
  "stored_row bk w n =
     \<lparr>app_id = new_id bk w,
      student_id = new_student_id n,
      desired_country = new_desired_country n,
      desired_college = new_desired_college n,
      education_level = new_education_level n,
      field_of_study = new_field_of_study n,
      passport_url = new_passport_url n,
      transcripts_url = new_transcripts_url n,
      motivation_letter_url = new_motivation_letter_url n,
      status = new_status n,
      created_at = clock w,
      updated_at = clock w\<rparr>"

text \<open>\<open>supabase.from('applications').insert({...})\<close>\<close>

definition insert_application ::
  "backend \<Rightarrow> string option \<Rightarrow> new_application \<Rightarrow> world \<Rightarrow> failure option \<times> world" where
  "insert_application bk p n w =
     (let w1 = issue p (InsertApplication n) w in
      case fault bk w p (InsertApplication n) of
        Some e \<Rightarrow> (Some e, w1)
      | None \<Rightarrow> (None, w1\<lparr>applications_tbl := applications_tbl w1 @ [stored_row bk w n]\<rparr>))"

section \<open>The application form (\<open>pages/Apply.tsx\<close>)\<close>

record form_data =
  desiredCountry :: string
  desiredCollege :: string
  educationLevel :: string
  fieldOfStudy :: string

record file_slots =
  passport :: "File option"
  transcripts :: "File option"
  motivationLetter :: "File option"

text \<open>
  The component state of \<open>Apply\<close>; \<open>href\<close> is \<open>window.location.href\<close> when the handler
  has assigned it.
\<close>

record apply_state =
  loading :: bool
  error :: string
  uploading :: "string option"
  formData :: form_data
  files :: file_slots
  href :: "string option"

definition initial_apply :: apply_state where
  "initial_apply =
     \<lparr>loading = False, error = [], uploading = None,
      formData = \<lparr>desiredCountry = [], desiredCollege = [], educationLevel = [],
                  fieldOfStudy = []\<rparr>,
      files = \<lparr>passport = None, transcripts = None, motivationLetter = None\<rparr>,
      href = None\<rparr>"

text \<open>The second argument of \<open>handleFileChange\<close>: \<open>'passport' | 'transcripts' | 'motivationLetter'\<close>.\<close>

datatype slot = Passport | Transcripts | MotivationLetter

fun slot_name :: "slot \<Rightarrow> string" where
  "slot_name Passport = ''passport''"
| "slot_name Transcripts = ''transcripts''"
| "slot_name MotivationLetter = ''motivationLetter''"

text \<open>\<open>{...files, [type]: file}\<close>\<close>

fun set_slot :: "slot \<Rightarrow> File \<Rightarrow> file_slots \<Rightarrow> file_slots" where
  "set_slot Passport f fs = fs\<lparr>passport := Some f\<rparr>"
| "set_slot Transcripts f fs = fs\<lparr>transcripts := Some f\<rparr>"
| "set_slot MotivationLetter f fs = fs\<lparr>motivationLetter := Some f\<rparr>"

definition validTypes :: "string list" where
  "validTypes = [''application/pdf'', ''application/zip'', ''application/x-zip-compressed'']"

text \<open>
  \<open>handleFileChange(e, type)\<close>; the first argument is \<open>e.target.files?.[0]\<close>, absent
  when the chooser was closed without a file. The handler has the component state only
  in scope: it issues no request.
\<close>

definition handleFileChange :: "File option \<Rightarrow> slot \<Rightarrow> apply_state \<Rightarrow> apply_state" where
  "handleFileChange selected ty st =
     (case selected of
        None \<Rightarrow> st
      | Some f \<Rightarrow>
          if file_type f \<notin> set validTypes
          then st\<lparr>error := ''Please upload a PDF or ZIP file for '' @ slot_name ty\<rparr>
          else if file_size f > 10 * 1024 * 1024
          then st\<lparr>error := ''File size must be less than 10MB for '' @ slot_name ty\<rparr>
          else st\<lparr>files := set_slot ty f (files st), error := []\<rparr>)"

text \<open>
  \<open>Number.prototype.toString\<close> on a non-negative integer: its decimal digits (\<open>digit\<close> is
  only applied below ten).
\<close>

definition digit :: "nat \<Rightarrow> char" where
  "digit d = ''0123456789'' ! d"

function decimal :: "nat \<Rightarrow> string" where
  "decimal n =
     (if n < 10 then [digit n]
      else decimal (n div 10) @ [digit (n mod 10)])"
  by pat_completeness auto
termination
  by (relation "measure id") auto

declare decimal.simps [simp del]

text \<open>
  \<open>name.split('.').pop()\<close>: the part after the last dot, the whole name when it has no
  dot (\<open>split\<close> never returns an empty array).
\<close>

definition split_pop :: "string \<Rightarrow> string" where
  "split_pop name = rev (takeWhile (\<lambda>c. c \<noteq> CHR ''.'') (rev name))"

text \<open>The template literal \<open>`${user!.id}/${path}_${Date.now()}.${fileExt}`\<close> of \<open>uploadFile\<close>.\<close>

definition fileName_of :: "string \<Rightarrow> string \<Rightarrow> nat \<Rightarrow> File \<Rightarrow> string" where
  "fileName_of uid path now f =
     uid @ ''/'' @ path @ ''_'' @ decimal now @ ''.'' @ split_pop (file_name f)"

text \<open>
  \<open>uploadFile(file, path)\<close> for the signed-in user \<open>uid\<close> (\<open>user!.id\<close>); \<open>Date.now()\<close>
  reads the clock. \<open>Inl\<close> is the value thrown.
\<close>

definition uploadFile ::
  "backend \<Rightarrow> string \<Rightarrow> File \<Rightarrow> string \<Rightarrow> world \<Rightarrow> (js_error + string) \<times> world" where
  "uploadFile bk uid f path w =
     (let fileName = fileName_of uid path (clock w) f
      in case storage_upload bk (Some uid) fileName f w of
           (Some e, w') \<Rightarrow> (Inl (thrown e), w')
         | (None, w') \<Rightarrow> (Inr (getPublicUrl bk fileName), w'))"

text \<open>The \<open>catch\<close> block of \<open>handleSubmit\<close>.\<close>

definition submit_catch :: "js_error \<Rightarrow> apply_state \<Rightarrow> apply_state" where
  "submit_catch err st =
     st\<lparr>error := (if instanceof_Error err then message err
                  else ''Failed to submit application''),
        loading := False, uploading := None\<rparr>"

definition whatsappUrl :: string where
  "whatsappUrl = ''https://wa.me/250785358347?text=Twarayakobokeye%20muyasindamo%20Mutzing''"

text \<open>\<open>handleSubmit\<close>, run to completion for the signed-in user \<open>uid\<close>.\<close>

definition handleSubmit ::
  "backend \<Rightarrow> string \<Rightarrow> apply_state \<Rightarrow> world \<Rightarrow> apply_state \<times> world" where
  "handleSubmit bk uid st0 w0 =
     (let st = st0\<lparr>error := []\<rparr> in
      case (passport (files st), transcripts (files st), motivationLetter (files st)) of
        (Some p, Some t, Some m) \<Rightarrow>
          (let st1 = st\<lparr>loading := True, uploading := Some ''passport''\<rparr> in
           case uploadFile bk uid p ''passport'' w0 of
             (Inl err, w1) \<Rightarrow> (submit_catch err st1, w1)
           | (Inr passportUrl, w1) \<Rightarrow>
          (let st2 = st1\<lparr>uploading := Some ''transcripts''\<rparr> in
           case uploadFile bk uid t ''transcripts'' w1 of
             (Inl err, w2) \<Rightarrow> (submit_catch err st2, w2)
           | (Inr transcriptsUrl, w2) \<Rightarrow>
          (let st3 = st2\<lparr>uploading := Some ''motivationLetter''\<rparr> in
           case uploadFile bk uid m ''motivation_letter'' w2 of
             (Inl err, w3) \<Rightarrow> (submit_catch err st3, w3)
           | (Inr motivationLetterUrl, w3) \<Rightarrow>
          (let st4 = st3\<lparr>uploading := Some ''submitting''\<rparr>;
               row = \<lparr>new_student_id = uid,
                      new_desired_country = desiredCountry (formData st4),
                      new_desired_college = desiredCollege (formData st4),
                      new_education_level = educationLevel (formData st4),
                      new_field_of_study = fieldOfStudy (formData st4),
                      new_passport_url = passportUrl,
                      new_transcripts_url = transcriptsUrl,
                      new_motivation_letter_url = motivationLetterUrl,
                      new_status = ''Pending''\<rparr>
           in case insert_application bk (Some uid) row w3 of
                (Some insertError, w4) \<Rightarrow> (submit_catch (thrown insertError) st4, w4)
              | (None, w4) \<Rightarrow> (st4\<lparr>href := Some whatsappUrl\<rparr>, w4)))))
      | _ \<Rightarrow> (st\<lparr>error := ''Please upload all required documents''\<rparr>, w0))"

text \<open>
  The markup around the handler: \<open><form onSubmit={handleSubmit}>\<close>, in which the four
  controls \<open>desiredCountry\<close>, \<open>desiredCollege\<close>, \<open>educationLevel\<close> and \<open>fieldOfStudy\<close>
  carry the attribute \<open>required\<close> (the file inputs do not). The browser's constraint
  validation raises the submit event only when every required control has a non-empty
  value; otherwise the handler is not called.
\<close>

definition form_onSubmit ::
  "backend \<Rightarrow> string \<Rightarrow> apply_state \<Rightarrow> world \<Rightarrow> apply_state \<times> world" where
  "form_onSubmit bk uid st w =
     (if desiredCountry (formData st) = [] \<or> desiredCollege (formData st) = [] \<or>
         educationLevel (formData st) = [] \<or> fieldOfStudy (formData st) = []
      then (st, w)
      else handleSubmit bk uid st w)"

section \<open>The authentication context (\<open>AuthContext\<close>)\<close>

text \<open>
  The context state: the signed-in user (its id; \<open>null\<close> when signed out), the admin
  flag and the loading flag. Initially \<open>null\<close>, \<open>false\<close>, \<open>true\<close>.
\<close>

record auth_state =
  user :: "string option"
  isAdmin :: bool
  auth_loading :: bool


text \<open>
  \<open>supabase.from('admins').select('id').eq('id', userId).maybeSingle()\<close>: the rows of
  \<open>admins\<close> with that id; \<open>maybeSingle\<close> gives \<open>null\<close> for none, the row for one, and an
  error response for more than one.
\<close>

definition select_admin ::
  "backend \<Rightarrow> string option \<Rightarrow> string \<Rightarrow> world \<Rightarrow> (failure + string option) \<times> world" where
  "select_admin bk p userId w =
     (let w1 = issue p (SelectAdminById userId) w in
      case fault bk w p (SelectAdminById userId) of
        Some e \<Rightarrow> (Inl e, w1)
      | None \<Rightarrow>
          (case filter (\<lambda>i. i = userId) (admins_tbl w) of
             [] \<Rightarrow> (Inr None, w1)
           | [i] \<Rightarrow> (Inr (Some i), w1)
           | _ \<Rightarrow> (Inl (ErrorResponse
                        \<lparr>instanceof_Error = False,
                         message = ''JSON object requested, multiple (or no) rows returned''\<rparr>),
                    w1)))"

text \<open>
  \<open>checkAdminStatus(userId)\<close>. A rejected promise goes to the \<open>catch\<close> block; an error
  response has \<open>data = null\<close>, which \<open>!!data\<close> turns into \<open>false\<close>; the \<open>finally\<close> block
  clears the loading flag on every path.
\<close>

definition checkAdminStatus ::
  "backend \<Rightarrow> string \<Rightarrow> auth_state \<Rightarrow> world \<Rightarrow> auth_state \<times> world" where
  "checkAdminStatus bk userId au w =
     (case select_admin bk (Some userId) userId w of
        (Inl (Rejects e), w1) \<Rightarrow> (au\<lparr>isAdmin := False, auth_loading := False\<rparr>, w1)
      | (Inl (ErrorResponse e), w1) \<Rightarrow> (au\<lparr>isAdmin := False, auth_loading := False\<rparr>, w1)
      | (Inr data, w1) \<Rightarrow> (au\<lparr>isAdmin := (data \<noteq> None), auth_loading := False\<rparr>, w1))"

text \<open>The callback of \<open>onAuthStateChange\<close>, with \<open>session?.user\<close> as its argument.\<close>

definition onAuthStateChange ::
  "backend \<Rightarrow> string option \<Rightarrow> auth_state \<Rightarrow> world \<Rightarrow> auth_state \<times> world" where
  "onAuthStateChange bk session_user au w =
     (let au1 = au\<lparr>user := session_user\<rparr> in
      case session_user of
        Some uid \<Rightarrow> checkAdminStatus bk uid au1 w
      | None \<Rightarrow> (au1\<lparr>isAdmin := False, auth_loading := False\<rparr>, w))"

text \<open>Whether the outcome of a request is a rejected promise.\<close>

fun rejects_promise :: "failure option \<Rightarrow> bool" where
  "rejects_promise (Some (Rejects e)) = True"
| "rejects_promise _ = False"

section \<open>The student's dashboard (\<open>pages/Dashboard.tsx\<close>)\<close>

record dashboard_state =
  dash_applications :: "application list"
  dash_loading :: bool
  studentName :: string
  dash_location :: "string option"

definition initial_dashboard :: dashboard_state where
  "initial_dashboard =
     \<lparr>dash_applications = [], dash_loading = True, studentName = [], dash_location = None\<rparr>"

text \<open>
  \<open>.order('created_at', { ascending: false })\<close>: the rows by descending \<open>created_at\<close>.
  The order of rows with equal keys is the store's choice; the embedding takes one.
\<close>

definition order_created_at_desc :: "('a application_scheme) list \<Rightarrow> ('a application_scheme) list" where
  "order_created_at_desc rows = rev (sort_key created_at rows)"

text \<open>\<open>supabase.from('students').select('full_name').eq('id', id).maybeSingle()\<close>\<close>

definition select_student_name ::
  "backend \<Rightarrow> string option \<Rightarrow> string \<Rightarrow> world \<Rightarrow> (failure + string option) \<times> world" where
  "select_student_name bk p ident w =
     (let w1 = issue p (SelectStudentName ident) w in
      case fault bk w p (SelectStudentName ident) of
        Some e \<Rightarrow> (Inl e, w1)
      | None \<Rightarrow>
          (case filter (\<lambda>s. student_ident s = ident) (students_tbl w) of
             [] \<Rightarrow> (Inr None, w1)
           | [s] \<Rightarrow> (Inr (Some (full_name s)), w1)
           | _ \<Rightarrow> (Inl (ErrorResponse
                        \<lparr>instanceof_Error = False,
                         message = ''JSON object requested, multiple (or no) rows returned''\<rparr>),
                    w1)))"

text \<open>
  \<open>supabase.from('applications').select('*').eq('student_id', id).order('created_at', { ascending: false })\<close>
\<close>

definition select_applications_of_student ::
  "backend \<Rightarrow> string option \<Rightarrow> string \<Rightarrow> world \<Rightarrow> (failure + application list) \<times> world" where
  "select_applications_of_student bk p ident w =
     (let w1 = issue p (SelectApplicationsOfStudent ident) w in
      case fault bk w p (SelectApplicationsOfStudent ident) of
        Some e \<Rightarrow> (Inl e, w1)
      | None \<Rightarrow>
          (Inr (order_created_at_desc (filter (\<lambda>a. student_id a = ident) (applications_tbl w))),
           w1))"

text \<open>
  \<open>loadData\<close> for the signed-in user \<open>uid\<close>. The first query reads only \<open>data\<close>, so an
  error response is skipped and only a rejection reaches the \<open>catch\<close> block; the second
  throws its \<open>error\<close>. The \<open>finally\<close> block clears the loading flag.
\<close>

definition loadData ::
  "backend \<Rightarrow> string \<Rightarrow> dashboard_state \<Rightarrow> world \<Rightarrow> dashboard_state \<times> world" where
  "loadData bk uid st w =
     (case select_student_name bk (Some uid) uid w of
        (Inl (Rejects e), w1) \<Rightarrow> (st\<lparr>dash_loading := False\<rparr>, w1)
      | (studentResponse, w1) \<Rightarrow>
          (let studentData = (case studentResponse of Inr d \<Rightarrow> d | Inl e \<Rightarrow> None);
               st1 = (case studentData of Some n \<Rightarrow> st\<lparr>studentName := n\<rparr> | None \<Rightarrow> st)
           in case select_applications_of_student bk (Some uid) uid w1 of
                (Inl e, w2) \<Rightarrow> (st1\<lparr>dash_loading := False\<rparr>, w2)
              | (Inr applicationsData, w2) \<Rightarrow>
                  (st1\<lparr>dash_applications := applicationsData, dash_loading := False\<rparr>, w2)))"

text \<open>The effect of \<open>Dashboard\<close>: without a user, \<open>navigate('/login')\<close>.\<close>

definition dashboard_effect ::
  "backend \<Rightarrow> auth_state \<Rightarrow> dashboard_state \<Rightarrow> world \<Rightarrow> dashboard_state \<times> world" where
  "dashboard_effect bk au st w =
     (case user au of
        None \<Rightarrow> (st\<lparr>dash_location := Some ''/login''\<rparr>, w)
      | Some uid \<Rightarrow> loadData bk uid st w)"

section \<open>The administrator's dashboard (\<open>pages/AdminDashboard.tsx\<close>)\<close>

record admin_state =
  adm_applications :: "application_with_student list"
  adm_loading :: bool
  searchTerm :: string
  filterStatus :: string
  selectedApp :: "application_with_student option"
  updatingStatus :: bool
  adm_location :: "string option"

definition initial_admin :: admin_state where
  "initial_admin =
     \<lparr>adm_applications = [], adm_loading = True, searchTerm = [], filterStatus = ''all'',
      selectedApp = None, updatingStatus = False, adm_location = None\<rparr>"

text \<open>
  The joined read \<open>select('*, students!applications_student_id_fkey (*)')\<close> followed by
  \<open>formattedData\<close>: every application row with the student row its \<open>student_id\<close> refers
  to, newest first. The foreign key named in the query makes that row exist; an
  application without one (which the declared type of \<open>student\<close> excludes) is not produced.
\<close>

definition join_student :: "student list \<Rightarrow> application \<Rightarrow> application_with_student option" where
  "join_student ss a =
     map_option (\<lambda>s. application.extend a \<lparr>student = s\<rparr>)
       (find (\<lambda>s. student_ident s = student_id a) ss)"

definition select_applications_with_students ::
  "backend \<Rightarrow> string option \<Rightarrow> world \<Rightarrow> (failure + application_with_student list) \<times> world" where
  "select_applications_with_students bk p w =
     (let w1 = issue p SelectApplicationsWithStudents w in
      case fault bk w p SelectApplicationsWithStudents of
        Some e \<Rightarrow> (Inl e, w1)
      | None \<Rightarrow>
          (Inr (List.map_filter (join_student (students_tbl w))
                  (order_created_at_desc (applications_tbl w))),
           w1))"

text \<open>\<open>loadApplications\<close>: an error is logged to the console and the list is kept.\<close>

definition loadApplications ::
  "backend \<Rightarrow> auth_state \<Rightarrow> admin_state \<Rightarrow> world \<Rightarrow> admin_state \<times> world" where
  "loadApplications bk au st w =
     (case select_applications_with_students bk (user au) w of
        (Inl e, w1) \<Rightarrow> (st\<lparr>adm_loading := False\<rparr>, w1)
      | (Inr appsData, w1) \<Rightarrow> (st\<lparr>adm_applications := appsData, adm_loading := False\<rparr>, w1))"

text \<open>
  The effect of \<open>AdminDashboard\<close>: \<open>if (!user || !isAdmin) { navigate('/admin/login'); return; }\<close>,
  then \<open>loadApplications()\<close>.
\<close>

definition adminDashboard_effect ::
  "backend \<Rightarrow> auth_state \<Rightarrow> admin_state \<Rightarrow> world \<Rightarrow> admin_state \<times> world" where
  "adminDashboard_effect bk au st w =
     (if user au = None \<or> \<not> isAdmin au
      then (st\<lparr>adm_location := Some ''/admin/login''\<rparr>, w)
      else loadApplications bk au st w)"

text \<open>
  Modelled from the spec: what the store does with
  \<open>supabase.from('applications').update({ status: newStatus }).eq('id', appId)\<close> is not
  among the sources, which send the payload \<open>status\<close> only. The rows with that id get the
  new status, and the store stamps their \<open>updated_at\<close> with the time of the update
  (\<open>updated_at\<close> is "bumped on every mutation"); nothing else changes.
\<close>

definition update_application_status ::
  "backend \<Rightarrow> string option \<Rightarrow> string \<Rightarrow> string \<Rightarrow> world \<Rightarrow> failure option \<times> world" where
  "update_application_status bk p appId newStatus w =
     (let w1 = issue p (UpdateApplicationStatus appId newStatus) w in
      case fault bk w p (UpdateApplicationStatus appId newStatus) of
        Some e \<Rightarrow> (Some e, w1)
      | None \<Rightarrow>
          (None,
           w1\<lparr>applications_tbl :=
                 map (\<lambda>a. if app_id a = appId
                          then a\<lparr>status := newStatus, updated_at := clock w\<rparr> else a)
                   (applications_tbl w1)\<rparr>))"

text \<open>
  \<open>handleStatusUpdate(appId, newStatus)\<close>. The handler tests neither \<open>user\<close> nor
  \<open>isAdmin\<close>. \<open>selectedApp\<close> is the value the handler closed over, that of the state it
  was called in.
\<close>

definition handleStatusUpdate ::
  "backend \<Rightarrow> auth_state \<Rightarrow> string \<Rightarrow> string \<Rightarrow> admin_state \<Rightarrow> world \<Rightarrow> admin_state \<times> world" where
  "handleStatusUpdate bk au appId newStatus st w =
     (let st1 = st\<lparr>updatingStatus := True\<rparr> in
      case update_application_status bk (user au) appId newStatus w of
        (Some e, w1) \<Rightarrow> (st1\<lparr>updatingStatus := False\<rparr>, w1)
      | (None, w1) \<Rightarrow>
          (case loadApplications bk au st1 w1 of
             (st2, w2) \<Rightarrow>
               (let st3 = (case selectedApp st of
                             Some sel \<Rightarrow>
                               if app_id sel = appId
                               then st2\<lparr>selectedApp := Some (sel\<lparr>status := newStatus\<rparr>)\<rparr>
                               else st2
                           | None \<Rightarrow> st2)
                in (st3\<lparr>updatingStatus := False\<rparr>, w2))))"

text \<open>
  A character of the model is a UTF-16 code unit below 256, the Latin-1 range: the
  letter \<open>U+00C9\<close> is \<open>CHR 0xC9\<close>. On this range \<open>String.prototype.toLowerCase\<close> works
  character by character: the capitals \<open>A\<close> to \<open>Z\<close>, \<open>U+00C0\<close> to \<open>U+00D6\<close> and \<open>U+00D8\<close>
  to \<open>U+00DE\<close> go to the letter 32 places up, and every other character (digits,
  punctuation, \<open>U+00D7\<close>, the small letters) is kept. \<open>capitals\<close> and \<open>smalls\<close> list the
  cased letters in the same order.
\<close>

definition capitals :: string where
  "capitals =
     ''ABCDEFGHIJKLMNOPQRSTUVWXYZ'' @
       [CHR 0xC0, CHR 0xC1, CHR 0xC2, CHR 0xC3, CHR 0xC4, CHR 0xC5, CHR 0xC6, CHR 0xC7,
        CHR 0xC8, CHR 0xC9, CHR 0xCA, CHR 0xCB, CHR 0xCC, CHR 0xCD, CHR 0xCE, CHR 0xCF,
        CHR 0xD0, CHR 0xD1, CHR 0xD2, CHR 0xD3, CHR 0xD4, CHR 0xD5, CHR 0xD6, CHR 0xD8,
        CHR 0xD9, CHR 0xDA, CHR 0xDB, CHR 0xDC, CHR 0xDD, CHR 0xDE]"

definition smalls :: string where
  "smalls =
     ''abcdefghijklmnopqrstuvwxyz'' @
       [CHR 0xE0, CHR 0xE1, CHR 0xE2, CHR 0xE3, CHR 0xE4, CHR 0xE5, CHR 0xE6, CHR 0xE7,
        CHR 0xE8, CHR 0xE9, CHR 0xEA, CHR 0xEB, CHR 0xEC, CHR 0xED, CHR 0xEE, CHR 0xEF,
        CHR 0xF0, CHR 0xF1, CHR 0xF2, CHR 0xF3, CHR 0xF4, CHR 0xF5, CHR 0xF6, CHR 0xF8,
        CHR 0xF9, CHR 0xFA, CHR 0xFB, CHR 0xFC, CHR 0xFD, CHR 0xFE]"

definition lower_char :: "char \<Rightarrow> char" where
  "lower_char c = (case map_of (zip capitals smalls) c of Some l \<Rightarrow> l | None \<Rightarrow> c)"

definition toLowerCase :: "string \<Rightarrow> string" where
  "toLowerCase s = map lower_char s"

text \<open>\<open>s.includes(t)\<close>: \<open>t\<close> starts at some position of \<open>s\<close>.\<close>

fun string_includes :: "string \<Rightarrow> string \<Rightarrow> bool" where
  "string_includes [] t = (t = [])"
| "string_includes (c # s) t = (prefix t (c # s) \<or> string_includes s t)"

text \<open>The callback of \<open>applications.filter\<close> in \<open>filteredApplications\<close>.\<close>

definition matches :: "string \<Rightarrow> string \<Rightarrow> application_with_student \<Rightarrow> bool" where
  "matches term flt app =
     (let matchesSearch =
            (string_includes (toLowerCase (full_name (student app))) (toLowerCase term) \<or>
             string_includes (toLowerCase (desired_country app)) (toLowerCase term) \<or>
             string_includes (toLowerCase (desired_college app)) (toLowerCase term));
          matchesFilter = (flt = ''all'' \<or> status app = flt)
      in matchesSearch \<and> matchesFilter)"

definition filteredApplications ::
  "application_with_student list \<Rightarrow> string \<Rightarrow> string \<Rightarrow> application_with_student list" where
  "filteredApplications apps term flt = filter (matches term flt) apps"




text \<open>
  What an administrator's session can do to the dashboard and the world, from the markup
  of \<open>AdminDashboard\<close>: the effect runs after mounting; while \<open>loading\<close> is set only the
  spinner is rendered; afterwards the search box, the status selector, the
  \<open>View Details\<close> button of every listed row and, in the detail view of the selected
  application, the close button and the three status buttons (disabled while an update
  is running). Each handler runs to completion.
\<close>

inductive admin_session ::
  "backend \<Rightarrow> auth_state \<Rightarrow> world \<Rightarrow> admin_state \<times> world \<Rightarrow> bool"
  for bk :: backend and au :: auth_state and w0 :: world
where
  mounts: "admin_session bk au w0 (initial_admin, w0)"
| effect: "admin_session bk au w0 (st, w) \<Longrightarrow>
     admin_session bk au w0 (adminDashboard_effect bk au st w)"
| types_search: "admin_session bk au w0 (st, w) \<Longrightarrow> \<not> adm_loading st \<Longrightarrow>
     admin_session bk au w0 (st\<lparr>searchTerm := t\<rparr>, w)"
| selects_status: "admin_session bk au w0 (st, w) \<Longrightarrow> \<not> adm_loading st \<Longrightarrow>
     s \<in> {''all'', ''Pending'', ''Reviewed'', ''Accepted'', ''Rejected''} \<Longrightarrow>
     admin_session bk au w0 (st\<lparr>filterStatus := s\<rparr>, w)"
| views_details: "admin_session bk au w0 (st, w) \<Longrightarrow> \<not> adm_loading st \<Longrightarrow>
     app \<in> set (filteredApplications (adm_applications st) (searchTerm st) (filterStatus st)) \<Longrightarrow>
     admin_session bk au w0 (st\<lparr>selectedApp := Some app\<rparr>, w)"
| closes_details: "admin_session bk au w0 (st, w) \<Longrightarrow> \<not> adm_loading st \<Longrightarrow>
     selectedApp st \<noteq> None \<Longrightarrow>
     admin_session bk au w0 (st\<lparr>selectedApp := None\<rparr>, w)"
| clicks_status: "admin_session bk au w0 (st, w) \<Longrightarrow> \<not> adm_loading st \<Longrightarrow>
     selectedApp st = Some sel \<Longrightarrow> \<not> updatingStatus st \<Longrightarrow>
     s \<in> {''Reviewed'', ''Accepted'', ''Rejected''} \<Longrightarrow>
     admin_session bk au w0 (handleStatusUpdate bk au (app_id sel) s st w)"

text \<open>
  The worlds the portal can reach from an empty \<open>applications\<close> table: a student submits
  the form, an administrator clicks one of the three status buttons of the detail view
  (\<open>handleStatusUpdate(selectedApp.id, 'Reviewed')\<close>, \<open>'Accepted'\<close>, \<open>'Rejected'\<close>), or
  something happens that leaves the table as it is (a registration, a read, time
  passing).
\<close>

inductive reachable :: "backend \<Rightarrow> world \<Rightarrow> bool" for bk :: backend where
  initial: "applications_tbl w = [] \<Longrightarrow> reachable bk w"
| submits: "reachable bk w \<Longrightarrow> reachable bk (snd (handleSubmit bk uid st w))"
| marks_reviewed: "reachable bk w \<Longrightarrow> selectedApp st = Some sel \<Longrightarrow>
     reachable bk (snd (handleStatusUpdate bk au (app_id sel) ''Reviewed'' st w))"
| accepts: "reachable bk w \<Longrightarrow> selectedApp st = Some sel \<Longrightarrow>
     reachable bk (snd (handleStatusUpdate bk au (app_id sel) ''Accepted'' st w))"
| rejects: "reachable bk w \<Longrightarrow> selectedApp st = Some sel \<Longrightarrow>
     reachable bk (snd (handleStatusUpdate bk au (app_id sel) ''Rejected'' st w))"
| other: "reachable bk w \<Longrightarrow> applications_tbl w' = applications_tbl w \<Longrightarrow> reachable bk w'"

section \<open>Example data\<close>

text \<open>A backend that fails nothing, and one that fails the upload of \<open>grades.pdf\<close>.\<close>

definition example_backend :: backend where
  "example_backend =
     \<lparr>fault = (\<lambda>w p q. None),
      public_base = ''https://blobs.example/'',
      new_id = (\<lambda>w. ''app-'' @ decimal (length (applications_tbl w)))\<rparr>"

definition quota_exceeded :: js_error where
  "quota_exceeded = \<lparr>instanceof_Error = True, message = ''quota exceeded''\<rparr>"

definition unreachable_store :: js_error where
  "unreachable_store = \<lparr>instanceof_Error = True, message = ''Failed to fetch''\<rparr>"

fun fails_grades :: "world \<Rightarrow> string option \<Rightarrow> request \<Rightarrow> failure option" where
  "fails_grades w p (StorageUpload n f) =
     (if file_name f = ''grades.pdf'' then Some (ErrorResponse quota_exceeded) else None)"
| "fails_grades w p q = None"

definition grades_backend :: backend where
  "grades_backend = example_backend\<lparr>fault := fails_grades\<rparr>"

fun fails_admin_lookup :: "world \<Rightarrow> string option \<Rightarrow> request \<Rightarrow> failure option" where
  "fails_admin_lookup w p (SelectAdminById i) = Some (Rejects unreachable_store)"
| "fails_admin_lookup w p q = None"

definition offline_backend :: backend where
  "offline_backend = example_backend\<lparr>fault := fails_admin_lookup\<rparr>"




definition ada :: student where
  "ada = \<lparr>student_ident = ''s1'', full_name = ''Ada Byron'', email = ''a@x.com'', phone = ''1''\<rparr>"

definition bob :: student where
  "bob = \<lparr>student_ident = ''s2'', full_name = ''Bob Stone'', email = ''b@x.com'', phone = ''2''\<rparr>"

definition example_world :: world where
  "example_world =
     \<lparr>students_tbl = [ada, bob], applications_tbl = [], admins_tbl = [''root''],
      bucket = [], clock = 7, requests = []\<rparr>"

definition png_photo :: File where
  "png_photo = \<lparr>file_name = ''me.png'', file_type = ''image/png'', file_size = 100\<rparr>"

definition oversized :: File where
  "oversized = \<lparr>file_name = ''scan.pdf'', file_type = ''application/pdf'', file_size = 10485761\<rparr>"

definition pdf :: "string \<Rightarrow> File" where
  "pdf name = \<lparr>file_name = name, file_type = ''application/pdf'', file_size = 2048\<rparr>"

definition three_pdfs :: file_slots where
  "three_pdfs =
     \<lparr>passport = Some (pdf ''id.pdf''), transcripts = Some (pdf ''grades.pdf''),
      motivationLetter = Some (pdf ''letter.pdf'')\<rparr>"

text \<open>The form with its four fields filled and no document chosen.\<close>

definition filled_form :: apply_state where
  "filled_form =
     initial_apply\<lparr>formData := \<lparr>desiredCountry = ''Canada'', desiredCollege = ''UBC'',
       educationLevel = ''Diploma'', fieldOfStudy = ''Law''\<rparr>\<rparr>"

definition example_row :: "string \<Rightarrow> string \<Rightarrow> string \<Rightarrow> string \<Rightarrow> string \<Rightarrow> nat \<Rightarrow> application" where
  "example_row i sid country college st at =
     \<lparr>app_id = i, student_id = sid, desired_country = country, desired_college = college,
      education_level = ''Diploma'', field_of_study = ''Law'',
      passport_url = ''p'', transcripts_url = ''t'', motivation_letter_url = ''m'',
      status = st, created_at = at, updated_at = at\<rparr>"

definition example_table :: "application list" where
  "example_table =
     [example_row ''a1'' ''s1'' ''Canada'' ''UBC'' ''Pending'' 3,
      example_row ''a2'' ''s2'' ''Japan'' ''Harvard Extension'' ''Accepted'' 5,
      example_row ''a3'' ''s1'' ''Sweden'' ''KTH'' ''Pending'' 4]"

definition busy_world :: world where
  "busy_world = example_world\<lparr>applications_tbl := example_table\<rparr>"

text \<open>What \<open>loadApplications\<close> reads in \<open>busy_world\<close>.\<close>

definition example_listing :: "application_with_student list" where
  "example_listing =
     List.map_filter (join_student [ada, bob]) (order_created_at_desc example_table)"






definition root_admin :: auth_state where
  "root_admin = \<lparr>user = Some ''root'', isAdmin = True, auth_loading = False\<rparr>"

text \<open>
  The world after Ada's submission of three PDFs, the row of it an administrator
  selects, and the world after the administrator marks it as reviewed.
\<close>

definition submitted_world :: world where
  "submitted_world =
     snd (handleSubmit example_backend ''s1'' (initial_apply\<lparr>files := three_pdfs\<rparr>) example_world)"

definition submitted_row :: application_with_student where
  "submitted_row =
     application.extend (example_row ''app-0'' ''s1'' [] [] ''Pending'' 7) \<lparr>student = ada\<rparr>"

definition reviewing :: admin_state where
  "reviewing = initial_admin\<lparr>adm_loading := False, selectedApp := Some submitted_row\<rparr>"

definition reviewed_world :: world where
  "reviewed_world =
     snd (handleStatusUpdate example_backend root_admin (app_id submitted_row) ''Reviewed''
            reviewing submitted_world)"

section \<open>Properties of the application form\<close>

lemmas ex_defs = example_backend_def example_world_def pdf_def three_pdfs_def initial_apply_def
  grades_backend_def quota_exceeded_def

lemma fileName_7:
  "fileName_of uid path 7 (pdf (stem @ ''.pdf'')) = uid @ ''/'' @ path @ ''_7.pdf''"
  by (simp add: fileName_of_def pdf_def split_pop_def decimal.simps digit_def)

lemma submitted_world_table:
  "map status (applications_tbl submitted_world) = [''Pending''] \<and>
   map app_id (applications_tbl submitted_world) = [''app-0''] \<and>
   clock submitted_world = 7"
  by (simp add: submitted_world_def handleSubmit_def example_backend_def example_world_def pdf_def
      three_pdfs_def initial_apply_def uploadFile_def storage_upload_def
      insert_application_def issue_def Let_def stored_row_def decimal.simps digit_def)

lemma handleSubmit_incomplete:
  "passport (files st) = None \<or> transcripts (files st) = None \<or> motivationLetter (files st) = None
   \<Longrightarrow> handleSubmit bk uid st w = (st\<lparr>error := ''Please upload all required documents''\<rparr>, w)"
  by (auto simp add: handleSubmit_def Let_def split: option.splits)

text \<open>
  C1, as the code has it: for every submission of the form, if any of the three
  documents (passport, transcripts, motivation letter) is missing or any of the four
  descriptive fields is empty, no request is issued and so no Application record is
  inserted. A failure is returned when a document is missing and the four fields are
  filled: the message \<open>Please upload all required documents\<close> of \<open>handleSubmit\<close>. When a
  descriptive field is empty, the \<open>required\<close> attribute of its control keeps the form
  from calling the handler, and the state, with its error message, stays as it was.
\<close>

theorem form_submission_guard:
  "((passport (files st) = None \<or> transcripts (files st) = None \<or>
     motivationLetter (files st) = None) \<or>
    (desiredCountry (formData st) = [] \<or> desiredCollege (formData st) = [] \<or>
     educationLevel (formData st) = [] \<or> fieldOfStudy (formData st) = []) \<longrightarrow>
      snd (form_onSubmit bk uid st w) = w) \<and>
   ((passport (files st) = None \<or> transcripts (files st) = None \<or>
     motivationLetter (files st) = None) \<and>
    \<not> (desiredCountry (formData st) = [] \<or> desiredCollege (formData st) = [] \<or>
       educationLevel (formData st) = [] \<or> fieldOfStudy (formData st) = []) \<longrightarrow>
      form_onSubmit bk uid st w =
        (st\<lparr>error := ''Please upload all required documents''\<rparr>, w)) \<and>
   (desiredCountry (formData st) = [] \<or> desiredCollege (formData st) = [] \<or>
    educationLevel (formData st) = [] \<or> fieldOfStudy (formData st) = [] \<longrightarrow>
      form_onSubmit bk uid st w = (st, w)) \<and>
   (passport (files st) = None \<or> transcripts (files st) = None \<or>
    motivationLetter (files st) = None \<longrightarrow>
      handleSubmit bk uid st w =
        (st\<lparr>error := ''Please upload all required documents''\<rparr>, w))"
proof (intro conjI impI)
  assume "(passport (files st) = None \<or> transcripts (files st) = None \<or>
     motivationLetter (files st) = None) \<or>
    (desiredCountry (formData st) = [] \<or> desiredCollege (formData st) = [] \<or>
     educationLevel (formData st) = [] \<or> fieldOfStudy (formData st) = [])"
  then show "snd (form_onSubmit bk uid st w) = w"
    by (cases "desiredCountry (formData st) = [] \<or> desiredCollege (formData st) = [] \<or>
        educationLevel (formData st) = [] \<or> fieldOfStudy (formData st) = []")
       (simp_all add: form_onSubmit_def handleSubmit_incomplete)
next
  assume "(passport (files st) = None \<or> transcripts (files st) = None \<or>
     motivationLetter (files st) = None) \<and>
    \<not> (desiredCountry (formData st) = [] \<or> desiredCollege (formData st) = [] \<or>
       educationLevel (formData st) = [] \<or> fieldOfStudy (formData st) = [])"
  then show "form_onSubmit bk uid st w =
        (st\<lparr>error := ''Please upload all required documents''\<rparr>, w)"
    by (simp add: form_onSubmit_def handleSubmit_incomplete)
next
  assume "desiredCountry (formData st) = [] \<or> desiredCollege (formData st) = [] \<or>
    educationLevel (formData st) = [] \<or> fieldOfStudy (formData st) = []"
  then show "form_onSubmit bk uid st w = (st, w)"
    by (simp add: form_onSubmit_def)
next
  assume "passport (files st) = None \<or> transcripts (files st) = None \<or>
    motivationLetter (files st) = None"
  then show "handleSubmit bk uid st w =
        (st\<lparr>error := ''Please upload all required documents''\<rparr>, w)"
    by (rule handleSubmit_incomplete)
qed

theorem form_submission_guard_witness:
  "passport (files filled_form) = None \<and>
   desiredCountry (formData filled_form) \<noteq> [] \<and>
   form_onSubmit example_backend ''s1'' filled_form example_world =
     (filled_form\<lparr>error := ''Please upload all required documents''\<rparr>, example_world) \<and>
   desiredCountry (formData (initial_apply\<lparr>files := three_pdfs\<rparr>)) = [] \<and>
   snd (form_onSubmit example_backend ''s1'' (initial_apply\<lparr>files := three_pdfs\<rparr>)
     example_world) = example_world"
proof -
  have a: "(passport (files filled_form) = None \<or> transcripts (files filled_form) = None \<or>
     motivationLetter (files filled_form) = None) \<and>
    \<not> (desiredCountry (formData filled_form) = [] \<or>
       desiredCollege (formData filled_form) = [] \<or>
       educationLevel (formData filled_form) = [] \<or> fieldOfStudy (formData filled_form) = [])"
    and a': "passport (files filled_form) = None"
      "desiredCountry (formData filled_form) \<noteq> []"
    by (simp_all add: filled_form_def initial_apply_def)
  have b: "desiredCountry (formData (initial_apply\<lparr>files := three_pdfs\<rparr>)) = []"
    by (simp add: initial_apply_def)
  from a a' b
    form_submission_guard [of filled_form example_backend "''s1''" example_world]
    form_submission_guard [of "initial_apply\<lparr>files := three_pdfs\<rparr>" example_backend
      "''s1''" example_world]
  show ?thesis by blast
qed

text \<open>
  C1 as stated fails on the form: with the three documents chosen and the four
  descriptive fields empty, the submission inserts nothing, but it returns no failure
  either: the state comes back as it was, with an empty error message.
\<close>

theorem form_onSubmit_empty_field_counterexample:
  "desiredCountry (formData (initial_apply\<lparr>files := three_pdfs\<rparr>)) = [] \<and>
   error (initial_apply\<lparr>files := three_pdfs\<rparr>) = [] \<and>
   form_onSubmit example_backend ''s1'' (initial_apply\<lparr>files := three_pdfs\<rparr>) example_world =
     (initial_apply\<lparr>files := three_pdfs\<rparr>, example_world) \<and>
   error (fst (form_onSubmit example_backend ''s1'' (initial_apply\<lparr>files := three_pdfs\<rparr>)
     example_world)) = []"
  by (simp add: form_onSubmit_def initial_apply_def)

text \<open>
  C7: for every selected file, \<open>handleFileChange\<close> puts the file into its slot (and
  clears the error) if its declared media type is one of the pdf and zip types and its
  size is at most 10 MiB, and otherwise keeps the slots and sets an error message. A file
  of declared type \<open>image/png\<close> offered as the passport is rejected with the message
  \<open>Please upload a PDF or ZIP file for passport\<close> by a handler that issues no request;
  a submission of the fresh form after it changes nothing in the world: no request, no
  Application.
\<close>

theorem handleFileChange_validation:
  "(file_type f \<in> {''application/pdf'', ''application/zip'', ''application/x-zip-compressed''} \<and>
    file_size f \<le> 10485760 \<longrightarrow>
      files (handleFileChange (Some f) ty st) = set_slot ty f (files st) \<and>
      error (handleFileChange (Some f) ty st) = []) \<and>
   (\<not> (file_type f \<in> {''application/pdf'', ''application/zip'', ''application/x-zip-compressed''} \<and>
       file_size f \<le> 10485760) \<longrightarrow>
      files (handleFileChange (Some f) ty st) = files st \<and>
      error (handleFileChange (Some f) ty st) \<noteq> []) \<and>
   (file_type f = ''image/png'' \<longrightarrow>
      handleFileChange (Some f) Passport st =
        st\<lparr>error := ''Please upload a PDF or ZIP file for passport''\<rparr> \<and>
      handleSubmit bk uid (handleFileChange (Some f) Passport initial_apply) w =
        (initial_apply\<lparr>error := ''Please upload all required documents''\<rparr>, w))"
proof (intro conjI impI)
  assume "file_type f \<in> {''application/pdf'', ''application/zip'', ''application/x-zip-compressed''} \<and>
    file_size f \<le> 10485760"
  then show "files (handleFileChange (Some f) ty st) = set_slot ty f (files st)"
    and "error (handleFileChange (Some f) ty st) = []"
    unfolding handleFileChange_def validTypes_def by (simp_all del: insert_iff)
next
  assume a: "\<not> (file_type f \<in> {''application/pdf'', ''application/zip'', ''application/x-zip-compressed''} \<and>
    file_size f \<le> 10485760)"
  then show "files (handleFileChange (Some f) ty st) = files st"
    unfolding handleFileChange_def validTypes_def by (auto simp del: insert_iff)
  from a show "error (handleFileChange (Some f) ty st) \<noteq> []"
    unfolding handleFileChange_def validTypes_def by (auto simp del: insert_iff)
next
  assume png: "file_type f = ''image/png''"
  then show r: "handleFileChange (Some f) Passport st =
        st\<lparr>error := ''Please upload a PDF or ZIP file for passport''\<rparr>" for st
    by (simp add: handleFileChange_def validTypes_def)
  show "handleSubmit bk uid (handleFileChange (Some f) Passport initial_apply) w =
        (initial_apply\<lparr>error := ''Please upload all required documents''\<rparr>, w)"
    by (simp add: r handleSubmit_incomplete initial_apply_def)
qed

theorem handleFileChange_validation_witness:
  "files (handleFileChange (Some (pdf ''id.pdf'')) Passport initial_apply) =
     set_slot Passport (pdf ''id.pdf'') (files initial_apply) \<and>
   error (handleFileChange (Some (pdf ''id.pdf'')) Passport initial_apply) = [] \<and>
   files (handleFileChange (Some oversized) Transcripts initial_apply) = files initial_apply \<and>
   error (handleFileChange (Some oversized) Transcripts initial_apply) \<noteq> [] \<and>
   handleFileChange (Some png_photo) Passport initial_apply =
     initial_apply\<lparr>error := ''Please upload a PDF or ZIP file for passport''\<rparr> \<and>
   handleSubmit example_backend ''s1'' (handleFileChange (Some png_photo) Passport initial_apply)
     example_world =
     (initial_apply\<lparr>error := ''Please upload all required documents''\<rparr>, example_world)"
proof -
  have a: "file_type (pdf ''id.pdf'') \<in>
        {''application/pdf'', ''application/zip'', ''application/x-zip-compressed''} \<and>
      file_size (pdf ''id.pdf'') \<le> 10485760"
    by (simp add: pdf_def)
  have b: "\<not> (file_type oversized \<in>
        {''application/pdf'', ''application/zip'', ''application/x-zip-compressed''} \<and>
      file_size oversized \<le> 10485760)"
    by (simp add: oversized_def)
  have c: "file_type png_photo = ''image/png''"
    by (simp add: png_photo_def)
  show ?thesis
    using a b c
      handleFileChange_validation [of "pdf ''id.pdf''" Passport initial_apply]
      handleFileChange_validation [of oversized Transcripts initial_apply]
      handleFileChange_validation [of png_photo _ _ example_backend "''s1''" example_world]
    by blast
qed

text \<open>
  C3: for every submission with the three documents chosen, the uploads run in the order
  passport, transcripts, motivation letter. If the backend fails one of them, no later
  request is issued, the error is surfaced (its message, or
  \<open>Failed to submit application\<close> when it is not an \<open>Error\<close>), the loading flag is
  cleared and the \<open>applications\<close> table is unchanged. The table changes only when all
  three uploads succeeded: then the three blobs are stored, the requests sent are the
  three uploads followed by the insertion, and the new row carries the three locators
  and status \<open>Pending\<close>.
\<close>

theorem handleSubmit_upload_pipeline:
  fixes bk :: backend and uid :: string and st :: apply_state and w :: world
    and p t m :: File and f :: failure
  defines "n1 \<equiv> fileName_of uid ''passport'' (clock w) p"
    and "n2 \<equiv> fileName_of uid ''transcripts'' (clock w) t"
    and "n3 \<equiv> fileName_of uid ''motivation_letter'' (clock w) m"
    and "w1 \<equiv> snd (uploadFile bk uid p ''passport'' w)"
  defines "w2 \<equiv> snd (uploadFile bk uid t ''transcripts'' w1)"
  defines "w3 \<equiv> snd (uploadFile bk uid m ''motivation_letter'' w2)"
    and "r \<equiv> handleSubmit bk uid st w"
  defines "sent \<equiv> map snd (drop (length (requests w)) (requests (snd r)))"
    and "surfaced \<equiv> (if instanceof_Error (thrown f) then message (thrown f)
                        else ''Failed to submit application'')"
    and "row \<equiv> \<lparr>new_student_id = uid,
                 new_desired_country = desiredCountry (formData st),
                 new_desired_college = desiredCollege (formData st),
                 new_education_level = educationLevel (formData st),
                 new_field_of_study = fieldOfStudy (formData st),
                 new_passport_url = getPublicUrl bk n1,
                 new_transcripts_url = getPublicUrl bk n2,
                 new_motivation_letter_url = getPublicUrl bk n3,
                 new_status = ''Pending''\<rparr>"
  assumes present:
    "files st = \<lparr>passport = Some p, transcripts = Some t, motivationLetter = Some m\<rparr>"
  shows
    "(fault bk w (Some uid) (StorageUpload n1 p) = Some f \<longrightarrow>
        error (fst r) = surfaced \<and> \<not> loading (fst r) \<and>
        applications_tbl (snd r) = applications_tbl w \<and>
        sent = [StorageUpload n1 p]) \<and>
     (fault bk w (Some uid) (StorageUpload n1 p) = None \<and>
      fault bk w1 (Some uid) (StorageUpload n2 t) = Some f \<longrightarrow>
        error (fst r) = surfaced \<and> \<not> loading (fst r) \<and>
        applications_tbl (snd r) = applications_tbl w \<and>
        sent = [StorageUpload n1 p, StorageUpload n2 t]) \<and>
     (fault bk w (Some uid) (StorageUpload n1 p) = None \<and>
      fault bk w1 (Some uid) (StorageUpload n2 t) = None \<and>
      fault bk w2 (Some uid) (StorageUpload n3 m) = Some f \<longrightarrow>
        error (fst r) = surfaced \<and> \<not> loading (fst r) \<and>
        applications_tbl (snd r) = applications_tbl w \<and>
        sent = [StorageUpload n1 p, StorageUpload n2 t, StorageUpload n3 m]) \<and>
     (applications_tbl (snd r) \<noteq> applications_tbl w \<longrightarrow>
        fault bk w (Some uid) (StorageUpload n1 p) = None \<and>
        fault bk w1 (Some uid) (StorageUpload n2 t) = None \<and>
        fault bk w2 (Some uid) (StorageUpload n3 m) = None \<and>
        bucket (snd r) = bucket w @ [(n1, p), (n2, t), (n3, m)] \<and>
        applications_tbl (snd r) = applications_tbl w @ [stored_row bk w3 row] \<and>
        sent = [StorageUpload n1 p, StorageUpload n2 t, StorageUpload n3 m,
                InsertApplication row])"
proof -
  let ?U1 = "StorageUpload n1 p" and ?U2 = "StorageUpload n2 t" and ?U3 = "StorageUpload n3 m"
  have ck: "clock (snd (uploadFile bk uid g path v)) = clock v" for g path v
    by (simp add: uploadFile_def storage_upload_def issue_def Let_def split: option.splits)
  have ck1: "clock w1 = clock w" and ck2: "clock w2 = clock w"
    by (simp_all add: w1_def w2_def ck)
  have tb: "applications_tbl (snd (uploadFile bk uid g path v)) = applications_tbl v" for g path v
    by (simp add: uploadFile_def storage_upload_def issue_def Let_def split: option.splits)
  have up_fail: "uploadFile bk uid g path v =
      (Inl (thrown e), issue (Some uid) (StorageUpload (fileName_of uid path (clock v) g) g) v)"
    if "fault bk v (Some uid) (StorageUpload (fileName_of uid path (clock v) g) g) = Some e"
    for g path v e
    using that by (simp add: uploadFile_def storage_upload_def Let_def)
  have up_ok: "uploadFile bk uid g path v =
      (Inr (getPublicUrl bk (fileName_of uid path (clock v) g)),
       v\<lparr>requests := requests v @ [(Some uid, StorageUpload (fileName_of uid path (clock v) g) g)],
         bucket := bucket v @ [(fileName_of uid path (clock v) g, g)]\<rparr>)"
    if "fault bk v (Some uid) (StorageUpload (fileName_of uid path (clock v) g) g) = None"
    for g path v
    using that by (simp add: uploadFile_def storage_upload_def issue_def Let_def)
  have F1: "error (fst r) = surfaced \<and> \<not> loading (fst r) \<and>
        applications_tbl (snd r) = applications_tbl w \<and> sent = [?U1]"
    if f1: "fault bk w (Some uid) ?U1 = Some f"
    using up_fail [of w "''passport''" p f] f1
    by (simp add: r_def sent_def surfaced_def handleSubmit_def present Let_def n1_def
        submit_catch_def issue_def)
  have W1: "w1 = w\<lparr>requests := requests w @ [(Some uid, ?U1)], bucket := bucket w @ [(n1, p)]\<rparr>"
    and E1: "uploadFile bk uid p ''passport'' w = (Inr (getPublicUrl bk n1), w1)"
    if f1: "fault bk w (Some uid) ?U1 = None"
    using up_ok [of w "''passport''" p] f1 by (simp_all add: w1_def n1_def)
  have F2: "error (fst r) = surfaced \<and> \<not> loading (fst r) \<and>
        applications_tbl (snd r) = applications_tbl w \<and> sent = [?U1, ?U2]"
    if f1: "fault bk w (Some uid) ?U1 = None" and f2: "fault bk w1 (Some uid) ?U2 = Some f"
    using up_fail [of w1 "''transcripts''" t f] f2 E1 [OF f1] W1 [OF f1]
    by (simp add: r_def sent_def surfaced_def handleSubmit_def present Let_def n2_def ck1
        submit_catch_def issue_def)
  have W2: "w2 = w\<lparr>requests := requests w @ [(Some uid, ?U1), (Some uid, ?U2)],
                   bucket := bucket w @ [(n1, p), (n2, t)]\<rparr>"
    and E2: "uploadFile bk uid t ''transcripts'' w1 = (Inr (getPublicUrl bk n2), w2)"
    if f1: "fault bk w (Some uid) ?U1 = None" and f2: "fault bk w1 (Some uid) ?U2 = None"
    using up_ok [of w1 "''transcripts''" t] f2 W1 [OF f1]
    by (simp_all add: w2_def n2_def ck1)
  have F3: "error (fst r) = surfaced \<and> \<not> loading (fst r) \<and>
        applications_tbl (snd r) = applications_tbl w \<and> sent = [?U1, ?U2, ?U3]"
    if f1: "fault bk w (Some uid) ?U1 = None" and f2: "fault bk w1 (Some uid) ?U2 = None"
      and f3: "fault bk w2 (Some uid) ?U3 = Some f"
    using up_fail [of w2 "''motivation_letter''" m f] f3 E1 [OF f1] E2 [OF f1 f2] W2 [OF f1 f2]
    by (simp add: r_def sent_def surfaced_def handleSubmit_def present Let_def n3_def ck2
        submit_catch_def issue_def)
  have W3: "w3 = w\<lparr>requests := requests w @ [(Some uid, ?U1), (Some uid, ?U2), (Some uid, ?U3)],
                   bucket := bucket w @ [(n1, p), (n2, t), (n3, m)]\<rparr>"
    and E3: "uploadFile bk uid m ''motivation_letter'' w2 = (Inr (getPublicUrl bk n3), w3)"
    if f1: "fault bk w (Some uid) ?U1 = None" and f2: "fault bk w1 (Some uid) ?U2 = None"
      and f3: "fault bk w2 (Some uid) ?U3 = None"
    using up_ok [of w2 "''motivation_letter''" m] f3 W2 [OF f1 f2]
    by (simp_all add: w3_def n3_def ck2)
  have OK: "bucket (snd r) = bucket w @ [(n1, p), (n2, t), (n3, m)] \<and>
        applications_tbl (snd r) = applications_tbl w @ [stored_row bk w3 row] \<and>
        sent = [?U1, ?U2, ?U3, InsertApplication row]"
    if f1: "fault bk w (Some uid) ?U1 = None" and f2: "fault bk w1 (Some uid) ?U2 = None"
      and f3: "fault bk w2 (Some uid) ?U3 = None"
      and ch: "applications_tbl (snd r) \<noteq> applications_tbl w"
  proof (cases "fault bk w3 (Some uid) (InsertApplication row)")
    case None
    then show ?thesis
      using E1 [OF f1] E2 [OF f1 f2] E3 [OF f1 f2 f3] W3 [OF f1 f2 f3]
      by (simp add: r_def sent_def handleSubmit_def present Let_def insert_application_def
          issue_def row_def)
  next
    case (Some e)
    then have "applications_tbl (snd r) = applications_tbl w"
      using E1 [OF f1] E2 [OF f1 f2] E3 [OF f1 f2 f3] W3 [OF f1 f2 f3]
      by (simp add: r_def handleSubmit_def present Let_def insert_application_def
          issue_def row_def)
    with ch show ?thesis by simp
  qed
  have N: "fault bk w (Some uid) ?U1 = None \<and> fault bk w1 (Some uid) ?U2 = None \<and>
           fault bk w2 (Some uid) ?U3 = None"
    if ch: "applications_tbl (snd r) \<noteq> applications_tbl w"
  proof -
    have a: "fault bk w (Some uid) ?U1 = None"
    proof (rule ccontr)
      assume "fault bk w (Some uid) ?U1 \<noteq> None"
      then obtain e where e: "fault bk w (Some uid) ?U1 = Some e" by auto
      have "applications_tbl (snd r) = applications_tbl w"
        using up_fail [of w "''passport''" p e] e
        by (simp add: r_def handleSubmit_def present Let_def n1_def issue_def)
      with ch show False by simp
    qed
    have b: "fault bk w1 (Some uid) ?U2 = None"
    proof (rule ccontr)
      assume "fault bk w1 (Some uid) ?U2 \<noteq> None"
      then obtain e where e: "fault bk w1 (Some uid) ?U2 = Some e" by auto
      have "applications_tbl (snd r) = applications_tbl w"
        using up_fail [of w1 "''transcripts''" t e] e E1 [OF a] W1 [OF a]
        by (simp add: r_def handleSubmit_def present Let_def n2_def ck1 issue_def)
      with ch show False by simp
    qed
    have c: "fault bk w2 (Some uid) ?U3 = None"
    proof (rule ccontr)
      assume "fault bk w2 (Some uid) ?U3 \<noteq> None"
      then obtain e where e: "fault bk w2 (Some uid) ?U3 = Some e" by auto
      have "applications_tbl (snd r) = applications_tbl w"
        using up_fail [of w2 "''motivation_letter''" m e] e E1 [OF a] E2 [OF a b] W2 [OF a b]
        by (simp add: r_def handleSubmit_def present Let_def n3_def ck2 issue_def)
      with ch show False by simp
    qed
    from a b c show ?thesis by simp
  qed
  have P1: "fault bk w (Some uid) ?U1 = Some f \<longrightarrow>
        error (fst r) = surfaced \<and> \<not> loading (fst r) \<and>
        applications_tbl (snd r) = applications_tbl w \<and> sent = [?U1]"
    by (rule impI) (rule F1)
  have P2: "fault bk w (Some uid) ?U1 = None \<and> fault bk w1 (Some uid) ?U2 = Some f \<longrightarrow>
        error (fst r) = surfaced \<and> \<not> loading (fst r) \<and>
        applications_tbl (snd r) = applications_tbl w \<and> sent = [?U1, ?U2]"
    by (rule impI, elim conjE) (rule F2)
  have P3: "fault bk w (Some uid) ?U1 = None \<and> fault bk w1 (Some uid) ?U2 = None \<and>
        fault bk w2 (Some uid) ?U3 = Some f \<longrightarrow>
        error (fst r) = surfaced \<and> \<not> loading (fst r) \<and>
        applications_tbl (snd r) = applications_tbl w \<and> sent = [?U1, ?U2, ?U3]"
    by (rule impI, elim conjE) (rule F3)
  have P4: "applications_tbl (snd r) \<noteq> applications_tbl w \<longrightarrow>
        fault bk w (Some uid) ?U1 = None \<and> fault bk w1 (Some uid) ?U2 = None \<and>
        fault bk w2 (Some uid) ?U3 = None \<and>
        bucket (snd r) = bucket w @ [(n1, p), (n2, t), (n3, m)] \<and>
        applications_tbl (snd r) = applications_tbl w @ [stored_row bk w3 row] \<and>
        sent = [?U1, ?U2, ?U3, InsertApplication row]"
  proof (rule impI)
    assume ch: "applications_tbl (snd r) \<noteq> applications_tbl w"
    from N [OF ch] have a: "fault bk w (Some uid) ?U1 = None"
      and b: "fault bk w1 (Some uid) ?U2 = None" and c: "fault bk w2 (Some uid) ?U3 = None"
      by simp_all
    from OK [OF a b c ch] a b c
    show "fault bk w (Some uid) ?U1 = None \<and> fault bk w1 (Some uid) ?U2 = None \<and>
        fault bk w2 (Some uid) ?U3 = None \<and>
        bucket (snd r) = bucket w @ [(n1, p), (n2, t), (n3, m)] \<and>
        applications_tbl (snd r) = applications_tbl w @ [stored_row bk w3 row] \<and>
        sent = [?U1, ?U2, ?U3, InsertApplication row]"
      by (intro conjI) (elim conjE, assumption)+
  qed
  show ?thesis
    by (rule conjI [OF P1 conjI [OF P2 conjI [OF P3 P4]]])
qed

theorem handleSubmit_upload_pipeline_witness:
  "error (fst (handleSubmit grades_backend ''s1'' (initial_apply\<lparr>files := three_pdfs\<rparr>)
     example_world)) = ''quota exceeded'' \<and>
   applications_tbl (snd (handleSubmit grades_backend ''s1'' (initial_apply\<lparr>files := three_pdfs\<rparr>)
     example_world)) = [] \<and>
   map snd (requests (snd (handleSubmit grades_backend ''s1''
     (initial_apply\<lparr>files := three_pdfs\<rparr>) example_world))) =
     [StorageUpload ''s1/passport_7.pdf'' (pdf ''id.pdf''),
      StorageUpload ''s1/transcripts_7.pdf'' (pdf ''grades.pdf'')] \<and>
   applications_tbl submitted_world \<noteq> applications_tbl example_world \<and>
   bucket submitted_world =
     [(''s1/passport_7.pdf'', pdf ''id.pdf''), (''s1/transcripts_7.pdf'', pdf ''grades.pdf''),
      (''s1/motivation_letter_7.pdf'', pdf ''letter.pdf'')]"
proof -
  have present: "files (initial_apply\<lparr>files := three_pdfs\<rparr>) =
      \<lparr>passport = Some (pdf ''id.pdf''), transcripts = Some (pdf ''grades.pdf''),
       motivationLetter = Some (pdf ''letter.pdf'')\<rparr>"
    by (simp add: three_pdfs_def)
  have n: "fileName_of ''s1'' ''passport'' 7 (pdf ''id.pdf'') = ''s1/passport_7.pdf''"
    "fileName_of ''s1'' ''transcripts'' 7 (pdf ''grades.pdf'') = ''s1/transcripts_7.pdf''"
    "fileName_of ''s1'' ''motivation_letter'' 7 (pdf ''letter.pdf'') = ''s1/motivation_letter_7.pdf''"
    using fileName_7 [of "''s1''" "''passport''" "''id''"]
      fileName_7 [of "''s1''" "''transcripts''" "''grades''"]
      fileName_7 [of "''s1''" "''motivation_letter''" "''letter''"] by simp_all
  have c: "clock example_world = 7" "requests example_world = []"
    "applications_tbl example_world = []" "bucket example_world = []"
    by (simp_all add: example_world_def)
  have f1: "fault grades_backend v (Some ''s1'') (StorageUpload ''s1/passport_7.pdf'' (pdf ''id.pdf'')) = None" for v
    by (simp add: grades_backend_def pdf_def)
  have f2: "fault grades_backend v (Some ''s1'') (StorageUpload ''s1/transcripts_7.pdf'' (pdf ''grades.pdf''))
      = Some (ErrorResponse quota_exceeded)" for v
    by (simp add: grades_backend_def pdf_def)
  have failing: "error (fst (handleSubmit grades_backend ''s1'' (initial_apply\<lparr>files := three_pdfs\<rparr>)
     example_world)) = ''quota exceeded'' \<and>
   applications_tbl (snd (handleSubmit grades_backend ''s1'' (initial_apply\<lparr>files := three_pdfs\<rparr>)
     example_world)) = [] \<and>
   map snd (requests (snd (handleSubmit grades_backend ''s1''
     (initial_apply\<lparr>files := three_pdfs\<rparr>) example_world))) =
     [StorageUpload ''s1/passport_7.pdf'' (pdf ''id.pdf''),
      StorageUpload ''s1/transcripts_7.pdf'' (pdf ''grades.pdf'')]"
    using handleSubmit_upload_pipeline [OF present, where bk = grades_backend
        and uid = "''s1''" and w = example_world and f = "ErrorResponse quota_exceeded"]
    by (simp add: n c f1 f2 quota_exceeded_def)
  have ch: "applications_tbl submitted_world \<noteq> applications_tbl example_world"
    using submitted_world_table by (auto simp add: c)
  have "bucket submitted_world = bucket example_world @
      [(fileName_of ''s1'' ''passport'' (clock example_world) (pdf ''id.pdf''), pdf ''id.pdf''),
       (fileName_of ''s1'' ''transcripts'' (clock example_world) (pdf ''grades.pdf''),
        pdf ''grades.pdf''),
       (fileName_of ''s1'' ''motivation_letter'' (clock example_world) (pdf ''letter.pdf''),
        pdf ''letter.pdf'')]"
    using ch handleSubmit_upload_pipeline [OF present, where bk = example_backend
        and uid = "''s1''" and w = example_world and f = "ErrorResponse quota_exceeded"]
    unfolding submitted_world_def by blast
  then have passing: "bucket submitted_world =
     [(''s1/passport_7.pdf'', pdf ''id.pdf''), (''s1/transcripts_7.pdf'', pdf ''grades.pdf''),
      (''s1/motivation_letter_7.pdf'', pdf ''letter.pdf'')]"
    by (simp add: n c)
  from failing ch passing show ?thesis by blast
qed

section \<open>Properties of the role resolution\<close>

text \<open>
  C8: for every principal id, if the lookup in \<open>admins\<close> fails, by an error response or
  by a rejected promise, \<open>checkAdminStatus\<close> resolves to not-admin: it returns with
  \<open>isAdmin = false\<close> and the loading flag cleared, and the error goes no further. The
  same holds for the session-change callback that calls it.
\<close>

theorem checkAdminStatus_lookup_failure:
  "fault bk w (Some uid) (SelectAdminById uid) = Some f \<Longrightarrow>
   \<not> isAdmin (fst (checkAdminStatus bk uid au w)) \<and>
   \<not> auth_loading (fst (checkAdminStatus bk uid au w)) \<and>
   user (fst (checkAdminStatus bk uid au w)) = user au \<and>
   \<not> isAdmin (fst (onAuthStateChange bk (Some uid) au w)) \<and>
   user (fst (onAuthStateChange bk (Some uid) au w)) = Some uid"
  by (cases f) (simp_all add: checkAdminStatus_def onAuthStateChange_def select_admin_def Let_def)

theorem checkAdminStatus_lookup_failure_witness:
  "''root'' \<in> set (admins_tbl example_world) \<and> isAdmin root_admin \<and>
   \<not> isAdmin (fst (checkAdminStatus offline_backend ''root'' root_admin example_world)) \<and>
   \<not> auth_loading (fst (checkAdminStatus offline_backend ''root'' root_admin example_world)) \<and>
   \<not> isAdmin (fst (onAuthStateChange offline_backend (Some ''root'') root_admin example_world))"
proof -
  have f: "fault offline_backend example_world (Some ''root'') (SelectAdminById ''root'') =
      Some (Rejects unreachable_store)"
    by (simp add: offline_backend_def)
  show ?thesis
    using checkAdminStatus_lookup_failure [OF f, of root_admin]
    by (simp add: example_world_def root_admin_def)
qed

section \<open>Properties of the student's listing\<close>

lemmas world_defs = example_world_def busy_world_def example_table_def example_row_def
  example_backend_def

lemma order_created_at_desc_sorted:
  "sorted_wrt (\<lambda>a b. created_at b \<le> created_at a) (order_created_at_desc rows)"
proof -
  have "sorted (map created_at (sort_key created_at rows))"
    by (rule sorted_sort_key)
  then have "sorted_wrt (\<lambda>a b. created_at a \<le> created_at b) (sort_key created_at rows)"
    by (simp add: sorted_map)
  then show ?thesis
    by (simp add: order_created_at_desc_def sorted_wrt_rev)
qed

lemma order_created_at_desc_mset: "mset (order_created_at_desc rows) = mset rows"
  by (simp add: order_created_at_desc_def)

lemma select_student_name_world:
  "snd (select_student_name bk p i w) = issue p (SelectStudentName i) w"
  by (simp add: select_student_name_def Let_def split: option.splits list.splits)

lemma select_student_name_rejects:
  "fst (select_student_name bk p i w) = Inl (Rejects e) \<Longrightarrow>
   rejects_promise (fault bk w p (SelectStudentName i))"
  by (simp add: select_student_name_def Let_def split: option.splits list.splits)

lemma loadData_result:
  assumes "\<not> rejects_promise (fault bk w (Some uid) (SelectStudentName uid))"
    and "fault bk (issue (Some uid) (SelectStudentName uid) w) (Some uid)
          (SelectApplicationsOfStudent uid) = None"
  shows "dash_applications (fst (loadData bk uid st w)) =
           order_created_at_desc (filter (\<lambda>a. student_id a = uid) (applications_tbl w))"
    and "snd (loadData bk uid st w) =
           issue (Some uid) (SelectApplicationsOfStudent uid)
             (issue (Some uid) (SelectStudentName uid) w)"
proof -
  let ?w1 = "issue (Some uid) (SelectStudentName uid) w"
  define r where "r = fst (select_student_name bk (Some uid) uid w)"
  have r: "select_student_name bk (Some uid) uid w = (r, ?w1)"
    by (simp add: r_def prod_eq_iff select_student_name_world)
  have nr: "r \<noteq> Inl (Rejects e)" for e
    using assms(1) select_student_name_rejects [of bk "Some uid" uid w e] by (auto simp add: r_def)
  have t1: "applications_tbl ?w1 = applications_tbl w" by (simp add: issue_def)
  have s: "select_applications_of_student bk (Some uid) uid ?w1 =
      (Inr (order_created_at_desc (filter (\<lambda>a. student_id a = uid) (applications_tbl w))),
       issue (Some uid) (SelectApplicationsOfStudent uid) ?w1)"
    using assms(2) by (simp add: select_applications_of_student_def Let_def t1)
  show "dash_applications (fst (loadData bk uid st w)) =
           order_created_at_desc (filter (\<lambda>a. student_id a = uid) (applications_tbl w))"
    using nr by (simp add: loadData_def r s Let_def split: sum.splits failure.splits option.splits)
  show "snd (loadData bk uid st w) =
           issue (Some uid) (SelectApplicationsOfStudent uid) ?w1"
    using nr by (simp add: loadData_def r s Let_def split: sum.splits failure.splits option.splits)
qed

text \<open>
  C5: for every student id \<open>S\<close>, when the listing query is answered, \<open>loadData\<close> shows
  exactly the Applications of the table whose \<open>student_id\<close> is \<open>S\<close> (each as often as the
  table has it), newest first by \<open>created_at\<close>; every Application listed is owned by
  \<open>S\<close>, so for any other student none of the listed Applications is theirs.
\<close>

theorem loadData_lists_own_applications:
  assumes "\<not> rejects_promise (fault bk w (Some uid) (SelectStudentName uid))"
    and "fault bk (issue (Some uid) (SelectStudentName uid) w) (Some uid)
          (SelectApplicationsOfStudent uid) = None"
  shows "mset (dash_applications (fst (loadData bk uid st w))) =
           mset (filter (\<lambda>a. student_id a = uid) (applications_tbl w)) \<and>
         sorted_wrt (\<lambda>a b. created_at b \<le> created_at a)
           (dash_applications (fst (loadData bk uid st w))) \<and>
         (\<forall>a \<in> set (dash_applications (fst (loadData bk uid st w))). student_id a = uid) \<and>
         (\<forall>other. other \<noteq> uid \<longrightarrow>
            filter (\<lambda>a. student_id a = other) (dash_applications (fst (loadData bk uid st w))) = [])"
proof -
  note r = loadData_result(1) [OF assms, of st]
  have m: "mset (dash_applications (fst (loadData bk uid st w))) =
           mset (filter (\<lambda>a. student_id a = uid) (applications_tbl w))"
    by (simp add: r order_created_at_desc_mset)
  have own: "\<forall>a \<in> set (dash_applications (fst (loadData bk uid st w))). student_id a = uid"
    by (simp add: r order_created_at_desc_def)
  have iso: "\<forall>other. other \<noteq> uid \<longrightarrow>
            filter (\<lambda>a. student_id a = other) (dash_applications (fst (loadData bk uid st w))) = []"
    using own by (auto simp add: filter_empty_conv)
  have srt: "sorted_wrt (\<lambda>a b. created_at b \<le> created_at a)
           (dash_applications (fst (loadData bk uid st w)))"
    unfolding r by (rule order_created_at_desc_sorted)
  from m srt own iso show ?thesis
    by (intro conjI)
qed

theorem loadData_lists_own_applications_witness:
  "mset (dash_applications (fst (loadData example_backend ''s1'' initial_dashboard busy_world))) =
     mset [example_row ''a1'' ''s1'' ''Canada'' ''UBC'' ''Pending'' 3,
           example_row ''a3'' ''s1'' ''Sweden'' ''KTH'' ''Pending'' 4] \<and>
   sorted_wrt (\<lambda>a b. created_at b \<le> created_at a)
     (dash_applications (fst (loadData example_backend ''s1'' initial_dashboard busy_world))) \<and>
   filter (\<lambda>a. student_id a = ''s2'')
     (dash_applications (fst (loadData example_backend ''s1'' initial_dashboard busy_world))) = [] \<and>
   map app_id (dash_applications (fst (loadData example_backend ''s1'' initial_dashboard busy_world)))
     = [''a3'', ''a1'']"
proof -
  have h1: "\<not> rejects_promise (fault example_backend busy_world (Some ''s1'') (SelectStudentName ''s1''))"
    by (simp add: example_backend_def)
  have h2: "fault example_backend (issue (Some ''s1'') (SelectStudentName ''s1'') busy_world)
      (Some ''s1'') (SelectApplicationsOfStudent ''s1'') = None"
    by (simp add: example_backend_def)
  note T = loadData_lists_own_applications [OF h1 h2, of initial_dashboard]
  have own: "filter (\<lambda>a. student_id a = ''s1'') (applications_tbl busy_world) =
      [example_row ''a1'' ''s1'' ''Canada'' ''UBC'' ''Pending'' 3,
       example_row ''a3'' ''s1'' ''Sweden'' ''KTH'' ''Pending'' 4]"
    by (simp add: world_defs)
  have ord: "map app_id (dash_applications (fst (loadData example_backend ''s1'' initial_dashboard
      busy_world))) = [''a3'', ''a1'']"
    by (simp add: loadData_def select_student_name_def select_applications_of_student_def
        Let_def issue_def order_created_at_desc_def world_defs ada_def bob_def)
  from T have "filter (\<lambda>a. student_id a = ''s2'')
     (dash_applications (fst (loadData example_backend ''s1'' initial_dashboard busy_world))) = []"
    by simp
  with T ord show ?thesis
    by (simp only: own simp_thms)
qed

section \<open>Properties of the administrator's filter\<close>

lemmas listing_defs = example_listing_def List.map_filter_def join_student_def
  order_created_at_desc_def example_table_def example_row_def ada_def bob_def application.defs









text \<open>
  C10: for every collection, search term and status filter, \<open>filteredApplications\<close> is
  a subsequence of the collection, so it keeps the relative order: a collection that is
  newest first stays newest first.
\<close>

theorem filteredApplications_order:
  "subseq (filteredApplications apps term flt) apps \<and>
   (sorted_wrt (\<lambda>a b. created_at b \<le> created_at a) apps \<longrightarrow>
    sorted_wrt (\<lambda>a b. created_at b \<le> created_at a) (filteredApplications apps term flt))"
  by (simp add: filteredApplications_def sorted_wrt_filter)

theorem filteredApplications_order_witness:
  "sorted_wrt (\<lambda>a b. created_at b \<le> created_at a) example_listing \<and>
   subseq (filteredApplications example_listing ''ada'' ''Pending'') example_listing \<and>
   sorted_wrt (\<lambda>a b. created_at b \<le> created_at a)
     (filteredApplications example_listing ''ada'' ''Pending'') \<and>
   map created_at (filteredApplications example_listing ''ada'' ''Pending'') = [4, 3]"
proof -
  have s: "sorted_wrt (\<lambda>a b. created_at b \<le> created_at a) example_listing"
    by (simp add: listing_defs)
  have m: "map created_at (filteredApplications example_listing ''ada'' ''Pending'') = [4, 3]"
    by (simp add: listing_defs filteredApplications_def matches_def toLowerCase_def lower_char_def
        capitals_def smalls_def)
  from s m filteredApplications_order [of example_listing "''ada''" "''Pending''"]
  show ?thesis by blast
qed

section \<open>Properties of the status update\<close>

lemma loadApplications_world:
  "snd (loadApplications bk au st w) = issue (user au) SelectApplicationsWithStudents w"
  by (simp add: loadApplications_def select_applications_with_students_def Let_def
      split: option.splits)

lemma handleStatusUpdate_rejected:
  "fault bk w (user au) (UpdateApplicationStatus appId newStatus) = Some e \<Longrightarrow>
   handleStatusUpdate bk au appId newStatus st w =
     (st\<lparr>updatingStatus := False\<rparr>, issue (user au) (UpdateApplicationStatus appId newStatus) w)"
  by (simp add: handleStatusUpdate_def update_application_status_def Let_def)

lemma handleStatusUpdate_accepted:
  "fault bk w (user au) (UpdateApplicationStatus appId newStatus) = None \<Longrightarrow>
   snd (handleStatusUpdate bk au appId newStatus st w) =
     issue (user au) SelectApplicationsWithStudents
       ((issue (user au) (UpdateApplicationStatus appId newStatus) w)
          \<lparr>applications_tbl :=
             map (\<lambda>a. if app_id a = appId
                      then a\<lparr>status := newStatus, updated_at := clock w\<rparr> else a)
               (applications_tbl w)\<rparr>)"
proof -
  assume ok: "fault bk w (user au) (UpdateApplicationStatus appId newStatus) = None"
  define w1 where "w1 = (issue (user au) (UpdateApplicationStatus appId newStatus) w)
          \<lparr>applications_tbl :=
             map (\<lambda>a. if app_id a = appId
                      then a\<lparr>status := newStatus, updated_at := clock w\<rparr> else a)
               (applications_tbl w)\<rparr>"
  have u: "update_application_status bk (user au) appId newStatus w = (None, w1)"
    using ok by (simp add: update_application_status_def Let_def w1_def issue_def)
  obtain st2 where L: "loadApplications bk au (st\<lparr>updatingStatus := True\<rparr>) w1 =
      (st2, issue (user au) SelectApplicationsWithStudents w1)"
    using loadApplications_world [of bk au "st\<lparr>updatingStatus := True\<rparr>" w1]
    by (metis prod.collapse)
  have "snd (handleStatusUpdate bk au appId newStatus st w) =
      issue (user au) SelectApplicationsWithStudents w1"
    by (simp add: handleStatusUpdate_def u L Let_def split: option.splits)
  then show ?thesis
    by (simp only: w1_def)
qed

text \<open>
  C9: for every Application id and new status, when the store accepts the update,
  \<open>handleStatusUpdate\<close> leaves the table with the same rows in the same places, where
  every row with that id has the new status and \<open>updated_at\<close> set to the time of the
  update and is otherwise what it was, and every other row is what it was; the other
  tables and the bucket are unchanged.
\<close>

theorem handleStatusUpdate_frame:
  assumes "fault bk w (user au) (UpdateApplicationStatus appId newStatus) = None"
  shows "list_all2
           (\<lambda>a a'. if app_id a = appId
                    then status a' = newStatus \<and> updated_at a' = clock w \<and>
                         a'\<lparr>status := status a, updated_at := updated_at a\<rparr> = a
                    else a' = a)
           (applications_tbl w)
           (applications_tbl (snd (handleStatusUpdate bk au appId newStatus st w))) \<and>
         students_tbl (snd (handleStatusUpdate bk au appId newStatus st w)) = students_tbl w \<and>
         admins_tbl (snd (handleStatusUpdate bk au appId newStatus st w)) = admins_tbl w \<and>
         bucket (snd (handleStatusUpdate bk au appId newStatus st w)) = bucket w"
proof -
  show ?thesis
    by (simp add: handleStatusUpdate_accepted [OF assms] issue_def list_all2_map2
        list_all2_same)
qed

theorem handleStatusUpdate_frame_witness:
  "map status (applications_tbl busy_world) = [''Pending'', ''Accepted'', ''Pending''] \<and>
   map status (applications_tbl (snd (handleStatusUpdate example_backend root_admin ''a2''
     ''Reviewed'' initial_admin busy_world))) = [''Pending'', ''Reviewed'', ''Pending''] \<and>
   map updated_at (applications_tbl (snd (handleStatusUpdate example_backend root_admin ''a2''
     ''Reviewed'' initial_admin busy_world))) = [3, 7, 4] \<and>
   list_all2 (\<lambda>a a'. if app_id a = ''a2''
                then status a' = ''Reviewed'' \<and> updated_at a' = clock busy_world \<and>
                     a'\<lparr>status := status a, updated_at := updated_at a\<rparr> = a
                else a' = a)
     (applications_tbl busy_world)
     (applications_tbl (snd (handleStatusUpdate example_backend root_admin ''a2''
        ''Reviewed'' initial_admin busy_world)))"
proof -
  have ok: "fault example_backend busy_world (user root_admin)
      (UpdateApplicationStatus ''a2'' ''Reviewed'') = None"
    by (simp add: example_backend_def)
  have ev: "applications_tbl (snd (handleStatusUpdate example_backend root_admin ''a2''
     ''Reviewed'' initial_admin busy_world)) =
     [example_row ''a1'' ''s1'' ''Canada'' ''UBC'' ''Pending'' 3,
      (example_row ''a2'' ''s2'' ''Japan'' ''Harvard Extension'' ''Reviewed'' 5)\<lparr>updated_at := 7\<rparr>,
      example_row ''a3'' ''s1'' ''Sweden'' ''KTH'' ''Pending'' 4]"
    unfolding handleStatusUpdate_accepted [OF ok]
    by (simp add: issue_def busy_world_def example_world_def example_table_def example_row_def)
  have st: "map status (applications_tbl busy_world) = [''Pending'', ''Accepted'', ''Pending'']"
    by (simp add: busy_world_def example_table_def example_row_def)
  from handleStatusUpdate_frame [OF ok, of initial_admin] st show ?thesis
    by (simp add: ev example_row_def)
qed

section \<open>The status invariant\<close>

lemma uploadFile_table:
  "applications_tbl (snd (uploadFile bk uid f path w)) = applications_tbl w"
  by (simp add: uploadFile_def storage_upload_def issue_def Let_def split: option.splits)

lemma insert_application_table:
  "applications_tbl (snd (insert_application bk p n w)) = applications_tbl w \<or>
   applications_tbl (snd (insert_application bk p n w)) = applications_tbl w @ [stored_row bk w n]"
  by (simp add: insert_application_def issue_def Let_def split: option.splits)

lemma handleSubmit_table:
  "applications_tbl (snd (handleSubmit bk uid st w)) = applications_tbl w \<or>
   (\<exists>a. applications_tbl (snd (handleSubmit bk uid st w)) = applications_tbl w @ [a] \<and>
        status a = ''Pending'' \<and> student_id a = uid)"
proof (cases "passport (files st) = None \<or> transcripts (files st) = None \<or>
    motivationLetter (files st) = None")
  case True
  then show ?thesis by (simp add: handleSubmit_incomplete)
next
  case False
  then obtain p t m where f: "passport (files st) = Some p" "transcripts (files st) = Some t"
    "motivationLetter (files st) = Some m" by auto
  obtain r1 w1 where u1: "uploadFile bk uid p ''passport'' w = (r1, w1)" by fastforce
  obtain r2 w2 where u2: "uploadFile bk uid t ''transcripts'' w1 = (r2, w2)" by fastforce
  obtain r3 w3 where u3: "uploadFile bk uid m ''motivation_letter'' w2 = (r3, w3)" by fastforce
  have t1: "applications_tbl w1 = applications_tbl w"
    using uploadFile_table [of bk uid p "''passport''" w] by (simp add: u1)
  have t2: "applications_tbl w2 = applications_tbl w"
    using uploadFile_table [of bk uid t "''transcripts''" w1] by (simp add: u2 t1)
  have t3: "applications_tbl w3 = applications_tbl w"
    using uploadFile_table [of bk uid m "''motivation_letter''" w2] by (simp add: u3 t2)
  show ?thesis
  proof (cases r1)
    case (Inl e)
    then show ?thesis by (simp add: handleSubmit_def f u1 t1 Let_def)
  next
    case a: (Inr url1)
    show ?thesis
    proof (cases r2)
      case (Inl e)
      then show ?thesis by (simp add: handleSubmit_def f u1 u2 a t2 Let_def)
    next
      case b: (Inr url2)
      show ?thesis
      proof (cases r3)
        case (Inl e)
        then show ?thesis by (simp add: handleSubmit_def f u1 u2 u3 a b t3 Let_def)
      next
        case c: (Inr url3)
        define row where "row = \<lparr>new_student_id = uid,
                      new_desired_country = desiredCountry (formData st),
                      new_desired_college = desiredCollege (formData st),
                      new_education_level = educationLevel (formData st),
                      new_field_of_study = fieldOfStudy (formData st),
                      new_passport_url = url1,
                      new_transcripts_url = url2,
                      new_motivation_letter_url = url3,
                      new_status = ''Pending''\<rparr>"
        obtain r4 w4 where u4: "insert_application bk (Some uid) row w3 = (r4, w4)" by fastforce
        have "applications_tbl w4 = applications_tbl w \<or>
            applications_tbl w4 = applications_tbl w @ [stored_row bk w3 row]"
          using insert_application_table [of bk "Some uid" row w3] by (simp add: u4 t3)
        moreover have "status (stored_row bk w3 row) = ''Pending''"
          "student_id (stored_row bk w3 row) = uid"
          by (simp_all add: stored_row_def row_def)
        moreover have "snd (handleSubmit bk uid st w) = w4"
          using u4 by (simp add: handleSubmit_def f u1 u2 u3 a b c Let_def row_def
              split: option.splits)
        ultimately show ?thesis by auto
      qed
    qed
  qed
qed

lemma handleStatusUpdate_table:
  "applications_tbl (snd (handleStatusUpdate bk au appId newStatus st w)) = applications_tbl w \<or>
   applications_tbl (snd (handleStatusUpdate bk au appId newStatus st w)) =
     map (\<lambda>a. if app_id a = appId then a\<lparr>status := newStatus, updated_at := clock w\<rparr> else a)
       (applications_tbl w)"
proof (cases "fault bk w (user au) (UpdateApplicationStatus appId newStatus)")
  case None
  then show ?thesis by (simp add: handleStatusUpdate_accepted issue_def)
next
  case (Some e)
  then show ?thesis by (simp add: handleStatusUpdate_rejected issue_def)
qed

lemma status_update_keeps:
  assumes "\<forall>a \<in> set (applications_tbl w). status a \<in> S" and "s \<in> S"
  shows "\<forall>a \<in> set (applications_tbl (snd (handleStatusUpdate bk au appId s st w))). status a \<in> S"
  using handleStatusUpdate_table [of bk au appId s st w] assms by auto

lemma reachable_statuses:
  "reachable bk w \<Longrightarrow>
   \<forall>a \<in> set (applications_tbl w).
     status a \<in> {''Pending'', ''Reviewed'', ''Accepted'', ''Rejected''}"
proof (induction rule: reachable.induct)
  case (initial w)
  then show ?case by simp
next
  case (submits w uid st)
  from handleSubmit_table [of bk uid st w] submits.IH show ?case by auto
next
  case (marks_reviewed w st sel au)
  then show ?case by (intro status_update_keeps) simp_all
next
  case (accepts w st sel au)
  then show ?case by (intro status_update_keeps) simp_all
next
  case (rejects w st sel au)
  then show ?case by (intro status_update_keeps) simp_all
next
  case (other w w')
  then show ?case by simp
qed

text \<open>
  C4: in every reachable world, the status of every Application of the table is one of
  \<open>Pending\<close>, \<open>Reviewed\<close>, \<open>Accepted\<close>, \<open>Rejected\<close>. A submission leaves the table as it
  was or appends one row, whose status is \<open>Pending\<close>; the status buttons write
  \<open>Reviewed\<close>, \<open>Accepted\<close> or \<open>Rejected\<close>.
\<close>

theorem status_invariant:
  "(reachable bk w \<longrightarrow>
      (\<forall>a \<in> set (applications_tbl w).
         status a \<in> {''Pending'', ''Reviewed'', ''Accepted'', ''Rejected''})) \<and>
   (applications_tbl (snd (handleSubmit bk uid st v)) = applications_tbl v \<or>
      (\<exists>a. applications_tbl (snd (handleSubmit bk uid st v)) = applications_tbl v @ [a] \<and>
           status a = ''Pending''))"
proof
  show "reachable bk w \<longrightarrow>
      (\<forall>a \<in> set (applications_tbl w).
         status a \<in> {''Pending'', ''Reviewed'', ''Accepted'', ''Rejected''})"
    by (rule impI) (rule reachable_statuses)
  from handleSubmit_table [of bk uid st v]
  show "applications_tbl (snd (handleSubmit bk uid st v)) = applications_tbl v \<or>
      (\<exists>a. applications_tbl (snd (handleSubmit bk uid st v)) = applications_tbl v @ [a] \<and>
           status a = ''Pending'')"
    by blast
qed

theorem status_invariant_witness:
  "reachable example_backend submitted_world \<and>
   map status (applications_tbl submitted_world) = [''Pending''] \<and>
   reachable example_backend reviewed_world \<and>
   map status (applications_tbl reviewed_world) = [''Reviewed''] \<and>
   list_all (\<lambda>a. status a \<in> {''Pending'', ''Reviewed'', ''Accepted'', ''Rejected''})
     (applications_tbl reviewed_world)"
proof -
  have e: "reachable example_backend example_world"
    by (rule reachable.initial) (simp add: example_world_def)
  have s: "reachable example_backend submitted_world"
    unfolding submitted_world_def by (rule reachable.submits [OF e])
  have r: "reachable example_backend reviewed_world"
    unfolding reviewed_world_def
    by (rule reachable.marks_reviewed [OF s]) (simp add: reviewing_def)
  have ok: "fault example_backend submitted_world (user root_admin)
      (UpdateApplicationStatus ''app-0'' ''Reviewed'') = None"
    by (simp add: example_backend_def)
  have sel: "app_id submitted_row = ''app-0''"
    by (simp add: submitted_row_def application.defs example_row_def)
  have t: "map status (applications_tbl reviewed_world) = [''Reviewed'']"
    unfolding reviewed_world_def sel handleStatusUpdate_accepted [OF ok]
    using submitted_world_table by (auto simp add: issue_def)
  from status_invariant [of example_backend reviewed_world] r
  have "list_all (\<lambda>a. status a \<in> {''Pending'', ''Reviewed'', ''Accepted'', ''Rejected''})
     (applications_tbl reviewed_world)"
    by (simp only: list_all_iff) blast
  with s r t submitted_world_table show ?thesis by blast
qed

section \<open>The privilege gate\<close>





end
